theory Spec2Isabelle
  imports
    Complex_Main
    "HOL-Library.Char_ord"
    "HOL-Library.List_Lexorder"
    "HOL-Library.Product_Lexorder"
begin

section \<open>Tables\<close>

text \<open>
  A pandas DataFrame is modelled as the list of its rows, a row as a record of its
  columns. A cell of the game listing that \<open>read_csv\<close> found empty is missing (NaN):
  it is \<open>None\<close>, a present cell is \<open>Some\<close> of its text. The tables that the group-by
  of the participation analysis produces have no missing key, so their labels are plain
  strings. The tournament, team and round columns are text columns: a column in which
  every cell is a number is typed numeric by \<open>read_csv\<close> and then ordered by value; such
  columns are not modelled. A \<open>char\<close> is a code point below 256; Python compares
  strings lexicographically by code point, which is the order of
  \<open>HOL-Library.List_Lexorder\<close> over \<open>HOL-Library.Char_ord\<close>. Tuples of columns are
  compared lexicographically (\<open>HOL-Library.Product_Lexorder\<close>), as a sort or a group-by
  on several columns does.
\<close>

record ('t, 's) league_season =
  tournament :: 't
  season :: 's

record ('t, 's) combo = "('t, 's) league_season" +
  team :: string

type_synonym qualified_combo = "(string, string) combo"

record stats_row = "(string, string) combo" +
  num_rounds :: int

record max_games_row = "(string, string) league_season" +
  max_games :: int

record min_allowed_row = "(string, string) league_season" +
  min_allowed_num_games :: int

text \<open>
  \<open>df.groupby(keys)\<close> with the default \<open>sort=True\<close>: one group per distinct key, the
  groups in ascending key order, each group holding its rows in their original order.
\<close>

definition groupby :: "('a \<Rightarrow> 'k::linorder) \<Rightarrow> 'a list \<Rightarrow> ('k \<times> 'a list) list" where
  "groupby key rows =
     map (\<lambda>k. (k, filter (\<lambda>r. key r = k) rows)) (sort (remdups (map key rows)))"

text \<open>
  The same on a table whose key columns may have missing cells (the default
  \<open>dropna=True\<close>): the key of a row is \<open>None\<close> when one of its key cells is missing, and
  such a row is in no group.
\<close>

definition groupby_dropna ::
  "('a \<Rightarrow> 'k::linorder option) \<Rightarrow> 'a list \<Rightarrow> ('k \<times> 'a list) list" where
  "groupby_dropna key rows =
     map (\<lambda>k. (k, filter (\<lambda>r. key r = Some k) rows))
         (sort (remdups (List.map_filter key rows)))"

section \<open>team_season.py: the qualification filter\<close>

text \<open>\<open>_calc_min_games_to_include_team\<close>\<close>

definition calc_min_games_to_include_team :: "int \<Rightarrow> int" where
  "calc_min_games_to_include_team num_games = (if num_games \<le> 2 then 1 else 2)"

text \<open>
  \<open>_calc_min_allowed_games_per_tournament\<close>: group by (season, tournament), aggregate
  the maximum of \<open>num_rounds\<close>, map the threshold rule over it, drop \<open>max_games\<close>.
\<close>

definition calc_min_allowed_games_per_tournament :: "stats_row list \<Rightarrow> min_allowed_row list" where
  "calc_min_allowed_games_per_tournament games_stats =
     (let tournament_stats =
            map (\<lambda>((s, t), g). \<lparr>tournament = t, season = s,
                                  max_games = Max (set (map num_rounds g))\<rparr>)
                (groupby (\<lambda>r. (season r, tournament r)) games_stats)
      in map (\<lambda>m. \<lparr>tournament = tournament m, season = season m,
                     min_allowed_num_games = calc_min_games_to_include_team (max_games m)\<rparr>)
             tournament_stats)"

text \<open>
  \<open>left.merge(right, how='left', on=['season', 'tournament'])\<close>: every left row, in
  order, once for each right row with the same key; a left row without a match is kept
  with a missing value (\<open>None\<close>).
\<close>

definition merge_left :: "stats_row list \<Rightarrow> min_allowed_row list \<Rightarrow> (stats_row \<times> int option) list" where
  "merge_left left right =
     concat (map (\<lambda>r. case filter (\<lambda>m. season m = season r \<and> tournament m = tournament r) right of
                         [] \<Rightarrow> [(r, None)]
                       | ms \<Rightarrow> map (\<lambda>m. (r, Some (min_allowed_num_games m))) ms) left)"

text \<open>A comparison with a missing value is false, so the row is dropped.\<close>

definition clears_threshold :: "stats_row \<times> int option \<Rightarrow> bool" where
  "clears_threshold rm =
     (case snd rm of None \<Rightarrow> False | Some m \<Rightarrow> m \<le> num_rounds (fst rm))"

definition sort_columns :: "stats_row \<Rightarrow> string \<times> string \<times> string" where
  "sort_columns r = (season r, tournament r, team r)"

definition project_combo :: "stats_row \<Rightarrow> qualified_combo" where
  "project_combo r = \<lparr>tournament = tournament r, season = season r, team = team r\<rparr>"

text \<open>\<open>_calc_team_season_tournament_combos\<close>\<close>

definition calc_team_season_tournament_combos ::
  "stats_row list \<Rightarrow> int \<Rightarrow> qualified_combo list" where
  "calc_team_season_tournament_combos games_stats min_num_games =
     (let games_stats1 = filter (\<lambda>r. min_num_games \<le> num_rounds r) games_stats;
          min_allowed_games_stats = calc_min_allowed_games_per_tournament games_stats1;
          games_stats2 = merge_left games_stats1 min_allowed_games_stats;
          games_stats3 = filter clears_threshold games_stats2;
          games_stats4 = sort_key (\<lambda>rm. sort_columns (fst rm)) games_stats3
      in map (\<lambda>rm. project_combo (fst rm)) games_stats4)"

text \<open>
  The values of \<open>num_rounds\<close> in the (season, tournament) group of a table: what the
  aggregation \<open>max\<close> of the group-by ranges over.
\<close>

definition group_rounds :: "stats_row list \<Rightarrow> string \<Rightarrow> string \<Rightarrow> int set" where
  "group_rounds games_stats s t =
     set (map num_rounds (filter (\<lambda>r. (season r, tournament r) = (s, t)) games_stats))"

text \<open>
  The threshold that the merge attaches to the rows of a (season, tournament) group, and
  the test that a row of the table passes both filters at floor \<open>f\<close>: the second one
  reads the table that the floor has left.
\<close>

definition derived_threshold :: "stats_row list \<Rightarrow> string \<Rightarrow> string \<Rightarrow> int" where
  "derived_threshold gs s t = calc_min_games_to_include_team (Max (group_rounds gs s t))"

definition qualifies :: "stats_row list \<Rightarrow> int \<Rightarrow> stats_row \<Rightarrow> bool" where
  "qualifies gs f r \<longleftrightarrow>
     f \<le> num_rounds r \<and>
     derived_threshold (filter (\<lambda>r'. f \<le> num_rounds r') gs) (season r) (tournament r)
       \<le> num_rounds r"

section \<open>team_season.py: the participation analysis\<close>

text \<open>
  The columns of the game listing that the analysis reads. The loader turns the season
  column into strings, so the season of a game is never missing; the other cells may
  be. The rows of \<open>team_df\<close> are (team, tournament, season, round).
\<close>

record 's fixture = "(string option, 's) league_season" +
  round :: "string option"
  home_team :: "string option"
  away_team :: "string option"
  score :: "string option"

type_synonym team_row = "string option \<times> string option \<times> string \<times> string option"

text \<open>The group key (team, tournament, season) of a row: missing with the team or the tournament.\<close>

definition team_row_key :: "team_row \<Rightarrow> (string \<times> string \<times> string) option" where
  "team_row_key x =
     (case fst x of
        None \<Rightarrow> None
      | Some tm \<Rightarrow> (case fst (snd x) of
                     None \<Rightarrow> None
                   | Some t \<Rightarrow> Some (tm, t, fst (snd (snd x)))))"

definition team_row_round :: "team_row \<Rightarrow> string option" where
  "team_row_round x = snd (snd (snd x))"

definition team_df :: "(string, 'a) fixture_scheme list \<Rightarrow> team_row list" where
  "team_df listing =
     (let home_team_df = map (\<lambda>g. (home_team g, tournament g, season g, round g)) listing;
          away_team_df = map (\<lambda>g. (away_team g, tournament g, season g, round g)) listing
      in home_team_df @ away_team_df)"

text \<open>
  \<open>_get_num_games_stats\<close>: group \<open>team_df\<close> by (team, tournament, season) and count the
  distinct values of \<open>round\<close> in each group. \<open>nunique\<close> does not count a missing cell.
\<close>

definition get_num_games_stats :: "(string, 'a) fixture_scheme list \<Rightarrow> stats_row list" where
  "get_num_games_stats listing =
     map (\<lambda>kg. \<lparr>tournament = fst (snd (fst kg)), season = snd (snd (fst kg)),
                  team = fst (fst kg),
                  num_rounds = int (length (remdups (List.map_filter team_row_round (snd kg))))\<rparr>)
         (groupby_dropna team_row_key (team_df listing))"

text \<open>
  The key of a participation record, and the round identifiers in which a team appears
  as home or away side in the games of a tournament and season.
\<close>

definition stats_key :: "stats_row \<Rightarrow> string \<times> string \<times> string" where
  "stats_key r = (team r, tournament r, season r)"

definition appearances ::
  "(string, 'a) fixture_scheme list \<Rightarrow> string \<Rightarrow> string \<Rightarrow> string \<Rightarrow> string set" where
  "appearances listing tm t s =
     set (List.map_filter round
            (filter (\<lambda>g. tournament g = Some t \<and> season g = s \<and>
                          (home_team g = Some tm \<or> away_team g = Some tm)) listing))"

text \<open>The keys of the groups: a team with a tournament and season in which it has a game.\<close>

definition listing_keys :: "(string, 'a) fixture_scheme list \<Rightarrow> (string \<times> string \<times> string) set" where
  "listing_keys listing =
     {(tm, t, s). \<exists>g \<in> set listing. tournament g = Some t \<and> season g = s \<and>
                     (home_team g = Some tm \<or> away_team g = Some tm)}"

section \<open>team_season.py: the initial ratings\<close>

text \<open>\<open>Series.min()\<close>: missing on an empty column.\<close>

definition series_min :: "'a::linorder list \<Rightarrow> 'a option" where
  "series_min xs = (if xs = [] then None else Some (Min (set xs)))"

text \<open>
  Lines 40 to 42 of \<open>generate_team_season_combos_and_init_team_ratings\<close>: the rows
  (team, rating) written to \<open>first_season_path\<close>.
\<close>

definition first_season_teams :: "qualified_combo list \<Rightarrow> 'r \<Rightarrow> (string \<times> 'r) list" where
  "first_season_teams team_season_combos start_rating =
     (let first_season = series_min (map season team_season_combos);
          teams = map team (filter (\<lambda>c. Some (season c) = first_season) team_season_combos)
      in map (\<lambda>t. (t, start_rating)) teams)"

definition default_min_num_games :: int where
  "default_min_num_games = 1"

definition default_start_rating :: int where
  "default_start_rating = 2000"

section \<open>fetch_and_save.py: result classification\<close>

datatype error =
  FileNotFoundError string | ValueError | IndexError | KeyError | AttributeError

text \<open>
  \<open>str.split(sep)\<close> for a one-character separator: one more part than there are
  separators, never the empty list.
\<close>

fun str_split :: "char \<Rightarrow> string \<Rightarrow> string list" where
  "str_split sep [] = [[]]"
| "str_split sep (c # cs) =
     (if c = sep then [] # str_split sep cs
      else (case str_split sep cs of
              [] \<Rightarrow> [[c]]
            | p # ps \<Rightarrow> (c # p) # ps))"

text \<open>
  The whitespace of \<open>str.strip()\<close> and of \<open>int()\<close> among the code points below 256: tab,
  line feed, vertical tab, form feed, carriage return, the separators 0x1C to 0x1F, the
  space, the next-line control 0x85 and the no-break space 0xA0. Score fields with a
  code point above 255 are not modelled.
\<close>

definition is_space :: "char \<Rightarrow> bool" where
  "is_space c =
     (let n = (of_char c :: nat)
      in (9 \<le> n \<and> n \<le> 13) \<or> (28 \<le> n \<and> n \<le> 32) \<or> n = 133 \<or> n = 160)"

definition str_strip :: "string \<Rightarrow> string" where
  "str_strip s = rev (dropWhile is_space (rev (dropWhile is_space s)))"

definition is_digit :: "char \<Rightarrow> bool" where
  "is_digit c = (let n = (of_char c :: nat) in 48 \<le> n \<and> n \<le> 57)"

definition digit_val :: "char \<Rightarrow> int" where
  "digit_val c = int (of_char c) - 48"

text \<open>
  The decimal literal that \<open>int()\<close> accepts: digits, with single underscores allowed
  between two digits; below 256 the decimal digits are 0 to 9. A literal of more than
  \<open>max_str_digits\<close> digits is refused (the default limit of Python 3.11 and of the
  security releases of earlier versions).
\<close>

fun parse_digits :: "int \<Rightarrow> string \<Rightarrow> int option" where
  "parse_digits acc [] = Some acc"
| "parse_digits acc (c # cs) =
     (if is_digit c then parse_digits (acc * 10 + digit_val c) cs
      else if c = CHR ''_'' \<and> cs \<noteq> [] \<and> is_digit (hd cs) then parse_digits acc cs
      else None)"

definition max_str_digits :: nat where
  "max_str_digits = 4300"

definition parse_literal :: "string \<Rightarrow> int option" where
  "parse_literal s =
     (case s of
        [] \<Rightarrow> None
      | c # cs \<Rightarrow>
          if is_digit c \<and> length (filter is_digit s) \<le> max_str_digits
          then parse_digits 0 s else None)"

text \<open>\<open>int(s)\<close> on a string: \<open>None\<close> stands for the ValueError.\<close>

definition py_int :: "string \<Rightarrow> int option" where
  "py_int s =
     (case str_strip s of
        [] \<Rightarrow> None
      | c # cs \<Rightarrow>
          if c = CHR ''-'' then map_option uminus (parse_literal cs)
          else if c = CHR ''+'' then parse_literal cs
          else parse_literal (c # cs))"

text \<open>
  \<open>_calc_result\<close>. The list comprehension converts every part and raises ValueError at
  the first part that is no integer; \<open>scores[1]\<close> raises IndexError on a single part.
\<close>

definition calc_result :: "string \<Rightarrow> error + string" where
  "calc_result score_text =
     (case those (map (\<lambda>x. py_int (str_strip x)) (str_split CHR '':'' score_text)) of
        None \<Rightarrow> Inl ValueError
      | Some scores \<Rightarrow>
          (case scores of
             a # b # _ \<Rightarrow>
               Inr (if a > b then ''win1'' else if a = b then ''draw'' else ''win2'')
           | _ \<Rightarrow> Inl IndexError))"

text \<open>
  \<open>_calc_result\<close> on a cell of the score column: a missing cell is a float, which
  has no \<open>split\<close>.
\<close>

definition calc_result_cell :: "string option \<Rightarrow> error + string" where
  "calc_result_cell c = (case c of None \<Rightarrow> Inl AttributeError | Some s \<Rightarrow> calc_result s)"

section \<open>fetch_and_save.py: reading the game listing\<close>

text \<open>
  Files are an explicit store from paths to the tables that \<open>read_csv\<close> finds in them. A
  row of the listing file has its cells as read, the season before its conversion to a
  string. A date is (year, month, day). \<open>to_datetime\<close> with the format \<open>%Y-%m-%d\<close>,
  followed by the conversion to a calendar date, is a parameter of the model: on a cell
  it raises, or gives a date, or gives a missing date.
\<close>

type_synonym date = "int \<times> int \<times> int"

record raw_game = "string option fixture" +
  game_date_text :: "string option"

record game = "string fixture" +
  game_date :: "date option"
  result :: string

datatype 'r csv_file =
    ListingCsv "raw_game list"
  | CombosCsv "qualified_combo list"
  | RatingsCsv "(string \<times> 'r) list"

type_synonym 'r file_system = "string \<rightharpoonup> 'r csv_file"

text \<open>\<open>Series.map(f)\<close> for an \<open>f\<close> that may raise: the first exception ends the map.\<close>

fun map_raise :: "('a \<Rightarrow> error + 'b) \<Rightarrow> 'a list \<Rightarrow> error + 'b list" where
  "map_raise f [] = Inr []"
| "map_raise f (x # xs) =
     (case f x of
        Inl e \<Rightarrow> Inl e
      | Inr y \<Rightarrow> (case map_raise f xs of Inl e \<Rightarrow> Inl e | Inr ys \<Rightarrow> Inr (y # ys)))"

text \<open>\<open>sort_values(by='game_date')\<close> puts the rows with a missing date last.\<close>

definition date_sort_key :: "date option \<Rightarrow> bool \<times> date" where
  "date_sort_key d = (case d of None \<Rightarrow> (True, (0, 0, 0)) | Some x \<Rightarrow> (False, x))"

text \<open>\<open>astype(str)\<close> on a cell of the season column: a missing cell becomes the text nan.\<close>

definition astype_str :: "string option \<Rightarrow> string" where
  "astype_str c = (case c of None \<Rightarrow> ''nan'' | Some s \<Rightarrow> s)"

definition with_date_and_result :: "(date option \<times> raw_game) \<times> string \<Rightarrow> game" where
  "with_date_and_result x =
     (let r = snd (fst x)
      in \<lparr>tournament = tournament r, season = astype_str (season r), round = round r,
          home_team = home_team r, away_team = away_team r, score = score r,
          game_date = fst (fst x), result = snd x\<rparr>)"

text \<open>
  \<open>read_game_listing\<close>. The message of the missing file is the one of \<open>read_csv\<close>, for
  a path without quotes in it. A file that is no game listing has no column
  \<open>game_date\<close>. Rows with equal dates are kept in file order; pandas leaves their order
  open, which can change the row whose error is raised first, and nothing more: the
  participation analysis does not depend on the order of the listing.
\<close>

definition read_game_listing ::
  "(string option \<Rightarrow> error + date option) \<Rightarrow> 'r file_system \<Rightarrow> string \<Rightarrow> error + game list" where
  "read_game_listing to_datetime fs path =
     (case fs path of
        None \<Rightarrow>
          Inl (FileNotFoundError
                 (''[Errno 2] No such file or directory: '' @ CHR 0x27 # path @ [CHR 0x27]))
      | Some (ListingCsv rows) \<Rightarrow>
          (case map_raise (\<lambda>r. to_datetime (game_date_text r)) rows of
             Inl e \<Rightarrow> Inl e
           | Inr dates \<Rightarrow>
               (let listing = sort_key (\<lambda>dr. date_sort_key (fst dr)) (zip dates rows)
                in case map_raise (\<lambda>dr. calc_result_cell (score (snd dr))) listing of
                     Inl e \<Rightarrow> Inl e
                   | Inr results \<Rightarrow> Inr (map with_date_and_result (zip listing results))))
      | Some _ \<Rightarrow> Inl KeyError)"

section \<open>fetch_and_save.py: the rating aggregation\<close>

text \<open>
  Ratings are rationals: the sum, the division and the rounding of floating-point
  numbers are modelled by the exact operations. \<open>round(2)\<close> rounds the hundredfold to
  the nearest integer, a half to the even one.
\<close>

definition round_half_even :: "rat \<Rightarrow> int" where
  "round_half_even x =
     (let f = \<lfloor>x\<rfloor>; d = x - of_int f
      in if d < 1 / 2 then f else if 1 / 2 < d then f + 1 else if even f then f else f + 1)"

definition round2 :: "rat \<Rightarrow> rat" where
  "round2 x = of_int (round_half_even (x * 100)) / 100"

text \<open>The mean of a column: missing cells are skipped, without a present cell it is missing.\<close>

definition series_mean :: "rat option list \<Rightarrow> rat option" where
  "series_mean cells =
     (let xs = List.map_filter id cells
      in if xs = [] then None else Some (sum_list xs / of_nat (length xs)))"

text \<open>
  \<open>save_prepare_season_initial_ratings\<close>, from the table that \<open>read_csv\<close> returns for
  \<open>team_season_path\<close> to the table that is written. The dictionary is the list of its
  items, with distinct keys. The tournament and team columns are text. \<open>read_csv\<close>
  types the season column: \<open>numeric_season\<close> is \<open>Some\<close> of the value of a season when
  the column is numeric, and \<open>None\<close> when it is text.

  Line 63 calls \<open>transform('mean', 'rating')\<close>: the second argument is handed to
  \<open>mean\<close> as \<open>numeric_only\<close>, so the result is a table with the per-tournament mean of
  every numeric column other than the key: of \<open>season\<close> when it is numeric, and of
  \<open>rating\<close> when the merge has added it (an empty dictionary has no rating column).
  Setting this table as the one column \<open>avg_league_rating\<close> raises ValueError unless it
  has exactly one column.
\<close>

definition save_prepare_season_initial_ratings ::
  "('s::linorder \<Rightarrow> rat) option \<Rightarrow> (string \<times> rat) list \<Rightarrow> (string, 's) combo list
     \<Rightarrow> error + (string \<times> rat option) list" where
  "save_prepare_season_initial_ratings numeric_season elo_ratings_dict team_seasons_read =
     (let first_season = series_min (map season team_seasons_read);
          team_seasons = filter (\<lambda>c. Some (season c) = first_season) team_seasons_read;
          merged = map (\<lambda>c. (c, map_of elo_ratings_dict (team c))) team_seasons;
          league = (\<lambda>t. filter (\<lambda>cr. tournament (fst cr) = t) merged);
          mean_columns =
            (case numeric_season of
               None \<Rightarrow> []
             | Some v \<Rightarrow> [\<lambda>t. series_mean (map (\<lambda>cr. Some (v (season (fst cr)))) (league t))]) @
            (if elo_ratings_dict = [] then []
             else [\<lambda>t. series_mean (map snd (league t))])
      in case mean_columns of
           [avg_league_rating] \<Rightarrow>
             Inr (map (\<lambda>cr. (team (fst cr),
                              map_option round2 (avg_league_rating (tournament (fst cr)))))
                      merged)
         | _ \<Rightarrow> Inl ValueError)"

section \<open>team_season.py: the entry point\<close>

text \<open>
  \<open>generate_team_season_combos_and_init_team_ratings\<close>: only FileNotFoundError is
  caught and raised again with the path in its message; the two tables are written in
  order.
\<close>

definition generate_team_season_combos_and_init_team_ratings ::
  "(string option \<Rightarrow> error + date option) \<Rightarrow> 'r file_system \<Rightarrow> string \<Rightarrow> string \<Rightarrow> string \<Rightarrow> int \<Rightarrow> 'r
     \<Rightarrow> error + 'r file_system" where
  "generate_team_season_combos_and_init_team_ratings to_datetime fs games_list_path
       output_team_season_path first_season_path min_num_games start_rating =
     (case read_game_listing to_datetime fs games_list_path of
        Inl (FileNotFoundError _) \<Rightarrow>
          Inl (FileNotFoundError (''File not found: '' @ games_list_path))
      | Inl e \<Rightarrow> Inl e
      | Inr listing \<Rightarrow>
          (let games_stats = get_num_games_stats listing;
               team_season_combos = calc_team_season_tournament_combos games_stats min_num_games;
               fs1 = fs(output_team_season_path \<mapsto> CombosCsv team_season_combos)
           in Inr (fs1(first_season_path \<mapsto>
                         RatingsCsv (first_season_teams team_season_combos start_rating)))))"


section \<open>Example tables\<close>

text \<open>
  Two (tournament, season) groups: in \<open>T1\<close> team A played three rounds and team B one,
  in \<open>T2\<close> team C played two rounds and team D one.
\<close>

definition ex_stats :: "stats_row list" where
  "ex_stats =
     [\<lparr>tournament = ''T2'', season = ''S'', team = ''D'', num_rounds = 1\<rparr>,
      \<lparr>tournament = ''T1'', season = ''S'', team = ''B'', num_rounds = 1\<rparr>,
      \<lparr>tournament = ''T2'', season = ''S'', team = ''C'', num_rounds = 2\<rparr>,
      \<lparr>tournament = ''T1'', season = ''S'', team = ''A'', num_rounds = 3\<rparr>]"

text \<open>
  A listing of one tournament and season with three rounds: X plays all three rounds
  and appears twice in round 1, Z plays two rounds, Y and W one round each.
\<close>

definition ex_listing :: "string fixture list" where
  "ex_listing =
     [\<lparr>tournament = Some ''T'', season = ''S'', round = Some ''1'',
       home_team = Some ''X'', away_team = Some ''Y'', score = Some ''1 : 0''\<rparr>,
      \<lparr>tournament = Some ''T'', season = ''S'', round = Some ''1'',
       home_team = Some ''Z'', away_team = Some ''X'', score = Some ''2 : 2''\<rparr>,
      \<lparr>tournament = Some ''T'', season = ''S'', round = Some ''2'',
       home_team = Some ''X'', away_team = Some ''Z'', score = Some ''0 : 3''\<rparr>,
      \<lparr>tournament = Some ''T'', season = ''S'', round = Some ''3'',
       home_team = Some ''W'', away_team = Some ''X'', score = Some ''1 : 1''\<rparr>]"

text \<open>
  Qualified combinations of two seasons; in the earlier one team A is in two
  tournaments.
\<close>

definition ex_combos :: "qualified_combo list" where
  "ex_combos =
     [\<lparr>tournament = ''T1'', season = ''2020'', team = ''A''\<rparr>,
      \<lparr>tournament = ''T1'', season = ''2020'', team = ''B''\<rparr>,
      \<lparr>tournament = ''T1'', season = ''2021'', team = ''C''\<rparr>,
      \<lparr>tournament = ''T2'', season = ''2020'', team = ''A''\<rparr>]"

text \<open>
  A store with one game listing whose only row has the score of a game not played;
  every date text is read as the same day, a missing date stays missing.
\<close>

definition ex_rows :: "raw_game list" where
  "ex_rows =
     [\<lparr>tournament = Some ''T'', season = Some ''S'', round = Some ''1'',
       home_team = Some ''X'', away_team = Some ''Y'', score = Some ''- : -'',
       game_date_text = Some ''2020-01-01''\<rparr>]"

definition ex_fs :: "int file_system" where
  "ex_fs = [''games.csv'' \<mapsto> ListingCsv ex_rows]"

definition ex_to_datetime :: "string option \<Rightarrow> error + date option" where
  "ex_to_datetime c = (case c of None \<Rightarrow> Inr None | Some x \<Rightarrow> Inr (Some (2020, 1, 1)))"

text \<open>
  A store with one game listing whose only row has an empty round cell, and the
  listing that the loader makes of it.
\<close>

definition ex_no_round_rows :: "raw_game list" where
  "ex_no_round_rows =
     [\<lparr>tournament = Some ''T'', season = Some ''S'', round = None,
       home_team = Some ''X'', away_team = Some ''Y'', score = Some ''1 : 0'',
       game_date_text = Some ''2020-01-01''\<rparr>]"

definition ex_no_round_fs :: "int file_system" where
  "ex_no_round_fs = [''games.csv'' \<mapsto> ListingCsv ex_no_round_rows]"

definition ex_no_round_listing :: "game list" where
  "ex_no_round_listing =
     [\<lparr>tournament = Some ''T'', season = ''S'', round = None,
       home_team = Some ''X'', away_team = Some ''Y'', score = Some ''1 : 0'',
       game_date = Some (2020, 1, 1), result = ''win1''\<rparr>]"

text \<open>
  The rating dictionary and the team-season table of the aggregation example, once
  with a season column of numbers and once with one of text.
\<close>

definition ex_elo :: "(string \<times> rat) list" where
  "ex_elo = [(''A'', 1900), (''B'', 2100)]"

definition ex_team_seasons_numeric :: "(string, int) combo list" where
  "ex_team_seasons_numeric =
     [\<lparr>tournament = ''T1'', season = 2020, team = ''A''\<rparr>,
      \<lparr>tournament = ''T1'', season = 2020, team = ''B''\<rparr>,
      \<lparr>tournament = ''T2'', season = 2020, team = ''A''\<rparr>]"

definition ex_team_seasons_text :: "(string, string) combo list" where
  "ex_team_seasons_text =
     [\<lparr>tournament = ''T1'', season = ''2020/21'', team = ''A''\<rparr>,
      \<lparr>tournament = ''T1'', season = ''2020/21'', team = ''B''\<rparr>,
      \<lparr>tournament = ''T2'', season = ''2020/21'', team = ''A''\<rparr>]"

text \<open>A table with a repeated (team, tournament, season) row.\<close>

definition ex_duplicated :: "stats_row list" where
  "ex_duplicated =
     [\<lparr>tournament = ''T'', season = ''S'', team = ''A'', num_rounds = 1\<rparr>,
      \<lparr>tournament = ''T'', season = ''S'', team = ''A'', num_rounds = 1\<rparr>]"

section \<open>Properties of the group-by\<close>

lemma groupby_keys: "map fst (groupby key rows) = sort (remdups (map key rows))"
  by (simp add: groupby_def comp_def)

lemma groupby_keys_distinct: "distinct (map fst (groupby key rows))"
  by (simp add: groupby_keys)

lemma groupby_keys_set: "set (map fst (groupby key rows)) = key ` set rows"
  by (simp add: groupby_keys)

lemma groupby_member:
  "(k, g) \<in> set (groupby key rows) \<longleftrightarrow> k \<in> key ` set rows \<and> g = filter (\<lambda>r. key r = k) rows"
  by (auto simp: groupby_def)

lemma groupby_group_nonempty: "(k, g) \<in> set (groupby key rows) \<Longrightarrow> g \<noteq> []"
  by (auto simp: groupby_member filter_empty_conv)

section \<open>The threshold table\<close>

lemma group_rounds_filter:
  "set (map num_rounds (filter (\<lambda>r. (season r, tournament r) = k) gs)) =
   group_rounds gs (fst k) (snd k)"
  by (cases k) (simp add: group_rounds_def)

lemma group_rounds_iff:
  "n \<in> group_rounds gs s t \<longleftrightarrow>
   (\<exists>r \<in> set gs. season r = s \<and> tournament r = t \<and> num_rounds r = n)"
  by (auto simp: group_rounds_def)

lemma min_allowed_unfold:
  "calc_min_allowed_games_per_tournament gs =
   map (\<lambda>k. \<lparr>tournament = snd k, season = fst k,
                 min_allowed_num_games =
                   calc_min_games_to_include_team (Max (group_rounds gs (fst k) (snd k)))\<rparr>)
       (sort (remdups (map (\<lambda>r. (season r, tournament r)) gs)))"
  unfolding calc_min_allowed_games_per_tournament_def Let_def groupby_def map_map comp_def
  by (rule map_cong) (simp_all add: case_prod_unfold group_rounds_filter del: set_map)

lemma min_allowed_keys:
  "map (\<lambda>m. (season m, tournament m)) (calc_min_allowed_games_per_tournament gs) =
   sort (remdups (map (\<lambda>r. (season r, tournament r)) gs))"
  by (simp add: min_allowed_unfold comp_def)

lemma min_allowed_member:
  "m \<in> set (calc_min_allowed_games_per_tournament gs) \<longleftrightarrow>
   (\<exists>r \<in> set gs. season m = season r \<and> tournament m = tournament r) \<and>
   min_allowed_num_games m =
     calc_min_games_to_include_team (Max (group_rounds gs (season m) (tournament m)))"
  by (cases m) (auto simp: min_allowed_unfold image_iff)

section \<open>The qualification filter, unfolded\<close>

lemma filter_eq_distinct: "distinct xs \<Longrightarrow> x \<in> set xs \<Longrightarrow> filter (\<lambda>k. k = x) xs = [x]"
  by (induction xs) (auto simp: filter_empty_conv)

lemma min_allowed_lookup:
  assumes "r \<in> set gs"
  shows "filter (\<lambda>m. season m = season r \<and> tournament m = tournament r)
           (calc_min_allowed_games_per_tournament gs) =
         [\<lparr>tournament = tournament r, season = season r,
           min_allowed_num_games = derived_threshold gs (season r) (tournament r)\<rparr>]"
proof -
  let ?ks = "sort (remdups (map (\<lambda>r. (season r, tournament r)) gs))"
  have "filter (\<lambda>k. k = (season r, tournament r)) ?ks = [(season r, tournament r)]"
    using assms by (intro filter_eq_distinct) auto
  moreover have "(\<lambda>k. fst k = season r \<and> snd k = tournament r) = (\<lambda>k. k = (season r, tournament r))"
    by auto
  ultimately show ?thesis
    by (simp add: min_allowed_unfold filter_map comp_def derived_threshold_def)
qed

lemma merge_left_min_allowed:
  "merge_left gs (calc_min_allowed_games_per_tournament gs) =
   map (\<lambda>r. (r, Some (derived_threshold gs (season r) (tournament r)))) gs"
proof -
  have "concat (map (\<lambda>r. case filter (\<lambda>m. season m = season r \<and> tournament m = tournament r)
                            (calc_min_allowed_games_per_tournament gs) of
                         [] \<Rightarrow> [(r, None)]
                       | ms \<Rightarrow> map (\<lambda>m. (r, Some (min_allowed_num_games m))) ms) gs) =
        concat (map (\<lambda>r. [(r, Some (derived_threshold gs (season r) (tournament r)))]) gs)"
    by (rule arg_cong [where f = concat], rule map_cong) (simp_all add: min_allowed_lookup)
  then show ?thesis
    by (simp add: merge_left_def)
qed

lemma insort_key_map:
  "insort_key f (g x) (map g xs) = map g (insort_key (\<lambda>a. f (g a)) x xs)"
  by (induction xs) auto

lemma sort_key_map: "sort_key f (map g xs) = map g (sort_key (\<lambda>a. f (g a)) xs)"
  by (induction xs) (auto simp: insort_key_map)

lemma combos_unfold:
  "calc_team_season_tournament_combos gs f =
   map project_combo (sort_key sort_columns (filter (qualifies gs f) gs))"
  by (simp add: calc_team_season_tournament_combos_def Let_def merge_left_min_allowed
      filter_map sort_key_map comp_def clears_threshold_def qualifies_def [abs_def])

lemma combos_member:
  "c \<in> set (calc_team_season_tournament_combos gs f) \<longleftrightarrow>
   (\<exists>r \<in> set gs. project_combo r = c \<and> f \<le> num_rounds r \<and>
      calc_min_games_to_include_team
        (Max (group_rounds (filter (\<lambda>r'. f \<le> num_rounds r') gs) (season r) (tournament r)))
        \<le> num_rounds r)"
  by (auto simp: combos_unfold qualifies_def derived_threshold_def)

lemma combos_sorted:
  "sorted (map (\<lambda>c. (season c, tournament c, team c)) (calc_team_season_tournament_combos gs f))"
proof -
  have "(\<lambda>c. (season c, tournament c, team c)) \<circ> project_combo = sort_columns"
    by (auto simp: project_combo_def sort_columns_def)
  then show ?thesis
    by (simp add: combos_unfold)
qed

lemma project_combo_eq: "project_combo r = project_combo r' \<longleftrightarrow> sort_columns r = sort_columns r'"
  by (auto simp: project_combo_def sort_columns_def)

lemma combos_distinct:
  assumes "distinct (map sort_columns gs)"
  shows "distinct (calc_team_season_tournament_combos gs f)"
proof -
  have "distinct (map project_combo gs)"
    using assms by (simp add: distinct_map inj_on_def project_combo_eq)
  then have "distinct (map project_combo (filter (qualifies gs f) gs))"
    by (rule distinct_map_filter)
  then show ?thesis
    by (simp add: combos_unfold distinct_map)
qed

lemma Max_group_rounds_floor:
  assumes "r \<in> set gs" "f \<le> num_rounds r"
  shows "Max (group_rounds (filter (\<lambda>r'. f \<le> num_rounds r') gs) (season r) (tournament r)) =
         Max (group_rounds gs (season r) (tournament r))"
proof -
  let ?A = "group_rounds (filter (\<lambda>r'. f \<le> num_rounds r') gs) (season r) (tournament r)"
  let ?B = "group_rounds gs (season r) (tournament r)"
  have fin: "finite ?A" "finite ?B" by (simp_all add: group_rounds_def)
  have rA: "num_rounds r \<in> ?A" using assms by (auto simp: group_rounds_iff)
  have sub: "?A \<subseteq> ?B" by (auto simp: group_rounds_iff)
  have rB: "num_rounds r \<in> ?B" using rA sub by blast
  have "Max ?B \<in> ?B" using fin rB by (intro Max_in) auto
  moreover have "num_rounds r \<le> Max ?B" using fin rB by simp
  ultimately have "Max ?B \<in> ?A" using assms(2) by (auto simp: group_rounds_iff)
  then have "Max ?B \<le> Max ?A" using fin by simp
  moreover have "Max ?A \<le> Max ?B" using sub rA fin by (intro Max_mono) auto
  ultimately show ?thesis by simp
qed

lemma qualifies_mono:
  assumes "r \<in> set gs" "f1 \<le> f2" "qualifies gs f2 r"
  shows "qualifies gs f1 r"
  using assms Max_group_rounds_floor [of r gs f1] Max_group_rounds_floor [of r gs f2]
  by (simp add: qualifies_def derived_threshold_def)

lemma length_filter_mono:
  "(\<And>x. x \<in> set xs \<Longrightarrow> P x \<Longrightarrow> Q x) \<Longrightarrow> length (filter P xs) \<le> length (filter Q xs)"
  by (induction xs) auto

lemma combos_monotone:
  "f1 \<le> f2 \<Longrightarrow>
   length (calc_team_season_tournament_combos gs f2) \<le> length (calc_team_season_tournament_combos gs f1)"
  by (simp add: combos_unfold length_filter_mono qualifies_mono)

section \<open>The participation analysis, unfolded\<close>

lemma set_map_filter: "set (List.map_filter f xs) = {y. \<exists>x \<in> set xs. f x = Some y}"
  by (induction xs) (auto simp: List.map_filter_simps split: option.splits)

lemma groupby_dropna_keys:
  "map fst (groupby_dropna key rows) = sort (remdups (List.map_filter key rows))"
  by (simp add: groupby_dropna_def comp_def)

lemma stats_unfold:
  "get_num_games_stats listing =
   map (\<lambda>k. \<lparr>tournament = fst (snd k), season = snd (snd k), team = fst k,
               num_rounds = int (length (remdups (List.map_filter team_row_round
                  (filter (\<lambda>x. team_row_key x = Some k) (team_df listing)))))\<rparr>)
       (sort (remdups (List.map_filter team_row_key (team_df listing))))"
  by (simp add: get_num_games_stats_def groupby_dropna_def comp_def)

lemma stats_keys:
  "map stats_key (get_num_games_stats listing) =
   sort (remdups (List.map_filter team_row_key (team_df listing)))"
  by (simp add: stats_unfold comp_def stats_key_def)

lemma team_row_key_Some:
  "team_row_key x = Some k \<longleftrightarrow>
   fst x = Some (fst k) \<and> fst (snd x) = Some (fst (snd k)) \<and> fst (snd (snd x)) = snd (snd k)"
  by (cases k) (auto simp: team_row_key_def split: option.splits)

lemma set_team_df:
  "set (team_df listing) =
   (\<lambda>g. (home_team g, tournament g, season g, round g)) ` set listing \<union>
   (\<lambda>g. (away_team g, tournament g, season g, round g)) ` set listing"
  by (simp add: team_df_def)

lemma team_df_keys:
  "set (List.map_filter team_row_key (team_df listing)) = listing_keys listing"
  unfolding set_map_filter listing_keys_def set_team_df
  by (simp add: team_row_key_Some bex_Un) force

lemma team_df_rounds:
  "set (List.map_filter team_row_round
          (filter (\<lambda>x. team_row_key x = Some (tm, t, s)) (team_df listing))) =
   appearances listing tm t s"
  unfolding set_map_filter appearances_def set_filter set_team_df
  by (simp add: team_row_key_Some team_row_round_def bex_Un Bex_def) (force simp: image_iff)

lemma stats_num_rounds:
  "int (length (remdups (List.map_filter team_row_round
            (filter (\<lambda>x. team_row_key x = Some k) (team_df listing))))) =
   int (card (appearances listing (fst k) (fst (snd k)) (snd (snd k))))"
  using team_df_rounds [of "fst k" "fst (snd k)" "snd (snd k)" listing]
  by (simp add: length_remdups_card_conv)

lemma stats_member:
  "r \<in> set (get_num_games_stats listing) \<longleftrightarrow>
   stats_key r \<in> listing_keys listing \<and>
   num_rounds r = int (card (appearances listing (team r) (tournament r) (season r)))"
proof -
  let ?F = "\<lambda>k. \<lparr>tournament = fst (snd k), season = snd (snd k), team = fst k,
      num_rounds = int (card (appearances listing (fst k) (fst (snd k)) (snd (snd k))))\<rparr>"
  have set_eq: "set (get_num_games_stats listing) = ?F ` listing_keys listing"
    by (simp add: stats_unfold stats_num_rounds team_df_keys)
  have row: "r = ?F k \<longleftrightarrow> stats_key r = k \<and>
      num_rounds r = int (card (appearances listing (team r) (tournament r) (season r)))" for k
    by (cases r) (auto simp: stats_key_def)
  show ?thesis
  proof
    assume "r \<in> set (get_num_games_stats listing)"
    then obtain k where "k \<in> listing_keys listing" "r = ?F k"
      unfolding set_eq by blast
    then show "stats_key r \<in> listing_keys listing \<and>
        num_rounds r = int (card (appearances listing (team r) (tournament r) (season r)))"
      using row [of k] by simp
  next
    assume a: "stats_key r \<in> listing_keys listing \<and>
        num_rounds r = int (card (appearances listing (team r) (tournament r) (season r)))"
    then have "r = ?F (stats_key r)" using row [of "stats_key r"] by simp
    with a show "r \<in> set (get_num_games_stats listing)"
      unfolding set_eq by (intro image_eqI [where x = "stats_key r"]) simp_all
  qed
qed

lemma appearances_set:
  "appearances listing tm t s =
   {rd. \<exists>g \<in> set listing. tournament g = Some t \<and> season g = s \<and>
          (home_team g = Some tm \<or> away_team g = Some tm) \<and> round g = Some rd}"
  unfolding appearances_def set_map_filter by auto

lemma appearances_finite: "finite (appearances listing tm t s)"
  by (simp add: appearances_def)

lemma appearances_nonempty:
  assumes "(tm, t, s) \<in> listing_keys listing" "\<forall>g \<in> set listing. round g \<noteq> None"
  shows "appearances listing tm t s \<noteq> {}"
  using assms unfolding listing_keys_def appearances_set by fastforce

lemma stats_num_rounds_nonneg:
  "r \<in> set (get_num_games_stats listing) \<Longrightarrow> 0 \<le> num_rounds r"
  by (simp add: stats_member)

lemma stats_num_rounds_pos:
  assumes "r \<in> set (get_num_games_stats listing)" "\<forall>g \<in> set listing. round g \<noteq> None"
  shows "1 \<le> num_rounds r"
proof -
  from assms(1) have k: "(team r, tournament r, season r) \<in> listing_keys listing"
    and n: "num_rounds r = int (card (appearances listing (team r) (tournament r) (season r)))"
    by (simp_all add: stats_member stats_key_def)
  have "card (appearances listing (team r) (tournament r) (season r)) \<noteq> 0"
    using appearances_nonempty [OF k assms(2)] appearances_finite by (simp add: card_eq_0_iff)
  with n show ?thesis by simp
qed

lemma stats_num_rounds_pos_iff:
  assumes "r \<in> set (get_num_games_stats listing)"
  shows "1 \<le> num_rounds r \<longleftrightarrow> appearances listing (team r) (tournament r) (season r) \<noteq> {}"
proof -
  from assms
  have "num_rounds r = int (card (appearances listing (team r) (tournament r) (season r)))"
    by (simp add: stats_member)
  then show ?thesis
    using appearances_finite [of listing "team r" "tournament r" "season r"]
    by (auto simp: card_eq_0_iff Suc_le_eq card_gt_0_iff)
qed

lemma stats_distinct: "distinct (map stats_key (get_num_games_stats listing))"
  by (simp add: stats_keys)

lemma stats_distinct_sort_columns: "distinct (map sort_columns (get_num_games_stats listing))"
proof -
  have "sort_columns = (\<lambda>k. (snd (snd k), fst (snd k), fst k)) \<circ> stats_key"
    by (auto simp: sort_columns_def stats_key_def)
  moreover have "distinct (map (\<lambda>k. (snd (snd k), fst (snd k), fst k))
      (map stats_key (get_num_games_stats listing)))"
    using stats_distinct [of listing] by (simp add: distinct_map inj_on_def prod_eq_iff del: map_map)
  ultimately show ?thesis by simp
qed

text \<open>
  The analysis reads the listing as a set of games: the order of the rows, which the
  sort by date of the loader fixes only up to ties, does not change the table.
\<close>

lemma stats_unfold_card:
  "get_num_games_stats listing =
   map (\<lambda>k. \<lparr>tournament = fst (snd k), season = snd (snd k), team = fst k,
               num_rounds = int (card (appearances listing (fst k) (fst (snd k)) (snd (snd k))))\<rparr>)
       (sorted_list_of_set (listing_keys listing))"
proof -
  have "sort (remdups (List.map_filter team_row_key (team_df listing))) =
      sorted_list_of_set (listing_keys listing)"
    using sorted_list_of_set_sort_remdups [of "List.map_filter team_row_key (team_df listing)"]
    by (simp add: team_df_keys)
  then show ?thesis
    by (simp add: stats_unfold stats_num_rounds)
qed

lemma get_num_games_stats_order_free:
  assumes "set listing = set listing'"
  shows "get_num_games_stats listing = get_num_games_stats listing'"
  using assms by (simp add: stats_unfold_card listing_keys_def appearances_set)

section \<open>The initial ratings, result classification and the entry point\<close>

lemma first_season_teams_Nil: "first_season_teams [] sr = []"
  by (simp add: first_season_teams_def series_min_def)

lemma first_season_teams_names:
  "combos \<noteq> [] \<Longrightarrow>
   map fst (first_season_teams combos sr) =
   map team (filter (\<lambda>c. season c = Min (season ` set combos)) combos)"
  by (simp add: first_season_teams_def series_min_def comp_def)

lemma first_season_teams_rating:
  "x \<in> set (first_season_teams combos sr) \<Longrightarrow> snd x = sr"
  by (auto simp: first_season_teams_def)

lemma those_None_iff: "those xs = None \<longleftrightarrow> None \<in> set xs"
  by (induction xs) (auto split: option.splits)

lemma None_in_map_iff: "None \<in> set (map f xs) \<longleftrightarrow> (\<exists>p \<in> set xs. f p = None)"
  by (induction xs) auto

lemma those_Some_length: "those xs = Some ys \<Longrightarrow> length ys = length xs"
  by (induction xs arbitrary: ys) (auto split: option.splits)

lemma calc_result_cases:
  "calc_result s =
     (case those (map (\<lambda>x. py_int (str_strip x)) (str_split CHR '':'' s)) of
        None \<Rightarrow> Inl ValueError
      | Some scores \<Rightarrow>
          if length scores < 2 then Inl IndexError
          else Inr (if scores ! 0 > scores ! 1 then ''win1''
                    else if scores ! 0 = scores ! 1 then ''draw'' else ''win2''))"
  by (auto simp: calc_result_def split: option.splits list.splits)

lemma calc_result_isl:
  "isl (calc_result s) \<longleftrightarrow>
   length (str_split CHR '':'' s) < 2 \<or>
   (\<exists>p \<in> set (str_split CHR '':'' s). py_int (str_strip p) = None)"
proof (cases "those (map (\<lambda>x. py_int (str_strip x)) (str_split CHR '':'' s))")
  case None
  then have "\<exists>p \<in> set (str_split CHR '':'' s). py_int (str_strip p) = None"
    by (simp add: those_None_iff None_in_map_iff del: set_map)
  with None show ?thesis by (simp add: calc_result_cases)
next
  case (Some scores)
  then have len: "length scores = length (str_split CHR '':'' s)"
    by (auto dest: those_Some_length)
  have "\<not> (\<exists>p \<in> set (str_split CHR '':'' s). py_int (str_strip p) = None)"
  proof
    assume "\<exists>p \<in> set (str_split CHR '':'' s). py_int (str_strip p) = None"
    then have "None \<in> set (map (\<lambda>x. py_int (str_strip x)) (str_split CHR '':'' s))"
      by (simp add: None_in_map_iff del: set_map)
    then show False using Some by (simp add: those_None_iff [symmetric] del: set_map)
  qed
  with Some len show ?thesis by (simp add: calc_result_cases)
qed

lemma map_raise_isl: "x \<in> set xs \<Longrightarrow> isl (f x) \<Longrightarrow> isl (map_raise f xs)"
  by (induction xs) (auto split: sum.splits)

lemma map_raise_length: "map_raise f xs = Inr ys \<Longrightarrow> length ys = length xs"
  by (induction xs arbitrary: ys) (auto split: sum.splits)

lemma read_game_listing_bad_score:
  assumes "fs path = Some (ListingCsv rows)" "r \<in> set rows" "isl (calc_result_cell (score r))"
  shows "isl (read_game_listing to_datetime fs path)"
proof (cases "map_raise (\<lambda>r. to_datetime (game_date_text r)) rows")
  case (Inl e)
  with assms(1) show ?thesis by (simp add: read_game_listing_def)
next
  case (Inr dates)
  then have "length dates = length rows" by (rule map_raise_length)
  with assms(2) obtain d where "(d, r) \<in> set (zip dates rows)"
    by (metis in_set_impl_in_set_zip2)
  then have "(d, r) \<in> set (sort_key (\<lambda>dr. date_sort_key (fst dr)) (zip dates rows))" by simp
  then have "isl (map_raise (\<lambda>dr. calc_result_cell (score (snd dr)))
      (sort_key (\<lambda>dr. date_sort_key (fst dr)) (zip dates rows)))"
    using assms(3) by (intro map_raise_isl [where x = "(d, r)"]) simp_all
  with Inr assms(1) show ?thesis
    by (auto simp: read_game_listing_def Let_def split: sum.splits)
qed

lemma generate_isl:
  "isl (read_game_listing to_datetime fs path) \<Longrightarrow>
   isl (generate_team_season_combos_and_init_team_ratings to_datetime fs path out1 out2 f sr)"
  by (auto simp: generate_team_season_combos_and_init_team_ratings_def split: sum.splits error.splits)

lemma generate_missing:
  "fs path = None \<Longrightarrow>
   generate_team_season_combos_and_init_team_ratings to_datetime fs path out1 out2 f sr =
   Inl (FileNotFoundError (''File not found: '' @ path))"
  by (simp add: generate_team_season_combos_and_init_team_ratings_def read_game_listing_def)

section \<open>The rating aggregation, unfolded\<close>

text \<open>
  With a numeric season column and a dictionary that is not empty, the table of means
  has the two columns \<open>season\<close> and \<open>rating\<close>, and setting it as one column raises, for
  every team-season table.
\<close>

lemma save_prepare_numeric_season_raises:
  "elo_ratings_dict \<noteq> [] \<Longrightarrow>
   save_prepare_season_initial_ratings (Some v) elo_ratings_dict team_seasons_read =
   Inl ValueError"
  by (simp add: save_prepare_season_initial_ratings_def Let_def)

text \<open>
  With a text season column the only numeric column is \<open>rating\<close>: every team of the
  earliest season gets the rounded mean of the ratings that the dictionary has for the
  teams of its tournament.
\<close>

lemma save_prepare_text_season:
  assumes "elo_ratings_dict \<noteq> []"
  shows "save_prepare_season_initial_ratings None elo_ratings_dict team_seasons_read =
     (let team_seasons = filter (\<lambda>c. Some (season c) = series_min (map season team_seasons_read))
                           team_seasons_read
      in Inr (map (\<lambda>c. (team c,
                      map_option round2
                        (series_mean (map (\<lambda>c'. map_of elo_ratings_dict (team c'))
                           (filter (\<lambda>c'. tournament c' = tournament c) team_seasons)))))
                team_seasons))"
  using assms
  by (simp add: save_prepare_season_initial_ratings_def Let_def filter_map comp_def)

section \<open>The example tables, evaluated\<close>

lemma ex_min_allowed:
  "calc_min_allowed_games_per_tournament ex_stats =
     [\<lparr>tournament = ''T1'', season = ''S'', min_allowed_num_games = 2\<rparr>,
      \<lparr>tournament = ''T2'', season = ''S'', min_allowed_num_games = 1\<rparr>]"
  by (simp add: ex_stats_def calc_min_allowed_games_per_tournament_def groupby_def
      calc_min_games_to_include_team_def)

lemma ex_group_rounds:
  "Max (group_rounds ex_stats ''S'' ''T1'') = 3" "Max (group_rounds ex_stats ''S'' ''T2'') = 2"
  by (simp_all add: ex_stats_def group_rounds_def)

lemma ex_combos_1:
  "calc_team_season_tournament_combos ex_stats 1 =
     [\<lparr>tournament = ''T1'', season = ''S'', team = ''A''\<rparr>,
      \<lparr>tournament = ''T2'', season = ''S'', team = ''C''\<rparr>,
      \<lparr>tournament = ''T2'', season = ''S'', team = ''D''\<rparr>]"
  by (simp add: calc_team_season_tournament_combos_def ex_stats_def merge_left_def
      calc_min_allowed_games_per_tournament_def groupby_def
      calc_min_games_to_include_team_def clears_threshold_def sort_columns_def project_combo_def)

lemma ex_combos_2:
  "calc_team_season_tournament_combos ex_stats 2 =
     [\<lparr>tournament = ''T1'', season = ''S'', team = ''A''\<rparr>,
      \<lparr>tournament = ''T2'', season = ''S'', team = ''C''\<rparr>]"
  by (simp add: calc_team_season_tournament_combos_def ex_stats_def merge_left_def
      calc_min_allowed_games_per_tournament_def groupby_def
      calc_min_games_to_include_team_def clears_threshold_def sort_columns_def project_combo_def)

lemma ex_duplicated_combos:
  "calc_team_season_tournament_combos ex_duplicated 1 =
     [\<lparr>tournament = ''T'', season = ''S'', team = ''A''\<rparr>,
      \<lparr>tournament = ''T'', season = ''S'', team = ''A''\<rparr>]"
  by (simp add: calc_team_season_tournament_combos_def ex_duplicated_def merge_left_def
      calc_min_allowed_games_per_tournament_def groupby_def
      calc_min_games_to_include_team_def clears_threshold_def sort_columns_def project_combo_def)

lemma ex_listing_stats:
  "get_num_games_stats ex_listing =
     [\<lparr>tournament = ''T'', season = ''S'', team = ''W'', num_rounds = 1\<rparr>,
      \<lparr>tournament = ''T'', season = ''S'', team = ''X'', num_rounds = 3\<rparr>,
      \<lparr>tournament = ''T'', season = ''S'', team = ''Y'', num_rounds = 1\<rparr>,
      \<lparr>tournament = ''T'', season = ''S'', team = ''Z'', num_rounds = 2\<rparr>]"
  by (simp add: get_num_games_stats_def groupby_dropna_def team_df_def ex_listing_def
      team_row_key_def team_row_round_def)

lemma ex_appearances:
  "appearances ex_listing ''X'' ''T'' ''S'' = {''1'', ''2'', ''3''}"
  by (auto simp: appearances_def ex_listing_def)

lemma ex_listing_combos:
  "calc_team_season_tournament_combos (get_num_games_stats ex_listing) 1 =
     [\<lparr>tournament = ''T'', season = ''S'', team = ''X''\<rparr>,
      \<lparr>tournament = ''T'', season = ''S'', team = ''Z''\<rparr>]"
  unfolding ex_listing_stats
  by (simp add: calc_team_season_tournament_combos_def merge_left_def
      calc_min_allowed_games_per_tournament_def groupby_def
      calc_min_games_to_include_team_def clears_threshold_def sort_columns_def project_combo_def)

lemma ex_first_season:
  "first_season_teams ex_combos (2000::int) = [(''A'', 2000), (''B'', 2000), (''A'', 2000)]"
  by (simp add: first_season_teams_def series_min_def ex_combos_def)

lemma ex_min: "Min (season ` set ex_combos) = ''2020''"
  by (simp add: ex_combos_def)

lemma ex_three_parts:
  "those (map (\<lambda>x. py_int (str_strip x)) (str_split CHR '':'' ''1:2:3'')) = Some [1, 2, 3]"
  by (simp add: py_int_def str_strip_def is_space_def parse_literal_def is_digit_def
      digit_val_def max_str_digits_def)

lemma ex_three_parts_result: "calc_result ''1:2:3'' = Inr ''win2''"
  unfolding calc_result_def ex_three_parts by simp

lemma ex_not_played: "py_int (str_strip '' -'') = None"
  by (simp add: py_int_def str_strip_def is_space_def parse_literal_def)

text \<open>A no-break space around a number is stripped; too long a literal is refused.\<close>

lemma ex_no_break_space:
  "calc_result [CHR ''1'', CHR 0xA0, CHR '':'', CHR ''2''] = Inr ''win2''"
  by (simp add: calc_result_def py_int_def str_strip_def is_space_def parse_literal_def
      is_digit_def digit_val_def max_str_digits_def)

lemma parse_literal_digit_limit:
  "max_str_digits < length (filter is_digit s) \<Longrightarrow> parse_literal s = None"
  by (cases s) (auto simp: parse_literal_def)

lemma ex_no_round_stats:
  "get_num_games_stats ex_no_round_listing =
     [\<lparr>tournament = ''T'', season = ''S'', team = ''X'', num_rounds = 0\<rparr>,
      \<lparr>tournament = ''T'', season = ''S'', team = ''Y'', num_rounds = 0\<rparr>]"
  by (simp add: get_num_games_stats_def groupby_dropna_def team_df_def ex_no_round_listing_def
      team_row_key_def team_row_round_def)

lemma ex_calc: "calc_result ''1 : 0'' = Inr ''win1''"
  by (simp add: calc_result_def py_int_def str_strip_def is_space_def parse_literal_def
      is_digit_def digit_val_def max_str_digits_def)

lemma ex_no_round_read:
  "read_game_listing ex_to_datetime ex_no_round_fs ''games.csv'' = Inr ex_no_round_listing"
  by (simp add: read_game_listing_def ex_no_round_fs_def ex_no_round_rows_def ex_to_datetime_def
      calc_result_cell_def ex_calc with_date_and_result_def astype_str_def
      ex_no_round_listing_def)

lemma ex_agg_numeric:
  "save_prepare_season_initial_ratings (Some rat_of_int) ex_elo ex_team_seasons_numeric =
   Inl ValueError"
  by (simp add: save_prepare_season_initial_ratings_def ex_elo_def Let_def)

lemma ex_agg_text:
  "save_prepare_season_initial_ratings None ex_elo ex_team_seasons_text =
   Inr [(''A'', Some 2000), (''B'', Some 2000), (''A'', Some 1900)]"
  by (simp add: save_prepare_season_initial_ratings_def ex_elo_def ex_team_seasons_text_def
      series_min_def series_mean_def round2_def round_half_even_def Let_def)

section \<open>Claims on the threshold rule\<close>

text \<open>
  C1. Every (tournament, season) group of the participation records has exactly one row
  in the threshold table, and its \<open>min_allowed_num_games\<close> is 1 when the group's
  \<open>max_games\<close> (the maximum \<open>num_rounds\<close> among its teams) is at most 2, and 2
  otherwise. In particular \<open>max_games = 2\<close> gives threshold 1 and \<open>max_games = 3\<close>
  gives threshold 2.
\<close>

theorem min_allowed_num_games_rule:
  "(\<forall>m \<in> set (calc_min_allowed_games_per_tournament gs).
      min_allowed_num_games m =
        (if Max (group_rounds gs (season m) (tournament m)) \<le> 2 then 1 else 2)) \<and>
   distinct (map (\<lambda>m. (season m, tournament m)) (calc_min_allowed_games_per_tournament gs)) \<and>
   set (map (\<lambda>m. (season m, tournament m)) (calc_min_allowed_games_per_tournament gs)) =
     (\<lambda>r. (season r, tournament r)) ` set gs \<and>
   calc_min_games_to_include_team 2 = 1 \<and>
   calc_min_games_to_include_team 3 = 2"
proof (intro conjI ballI)
  fix m assume "m \<in> set (calc_min_allowed_games_per_tournament gs)"
  then show "min_allowed_num_games m =
      (if Max (group_rounds gs (season m) (tournament m)) \<le> 2 then 1 else 2)"
    by (simp add: min_allowed_member calc_min_games_to_include_team_def)
next
  show "distinct (map (\<lambda>m. (season m, tournament m)) (calc_min_allowed_games_per_tournament gs))"
    by (simp add: min_allowed_keys)
next
  show "set (map (\<lambda>m. (season m, tournament m)) (calc_min_allowed_games_per_tournament gs)) =
      (\<lambda>r. (season r, tournament r)) ` set gs"
    by (simp add: min_allowed_keys)
qed (simp_all add: calc_min_games_to_include_team_def)

theorem min_allowed_num_games_rule_witness:
  "\<lparr>tournament = ''T1'', season = ''S'', min_allowed_num_games = 2\<rparr>
     \<in> set (calc_min_allowed_games_per_tournament ex_stats) \<and>
   Max (group_rounds ex_stats ''S'' ''T1'') = 3 \<and>
   \<lparr>tournament = ''T2'', season = ''S'', min_allowed_num_games = 1\<rparr>
     \<in> set (calc_min_allowed_games_per_tournament ex_stats) \<and>
   Max (group_rounds ex_stats ''S'' ''T2'') = 2"
  using min_allowed_num_games_rule [of ex_stats]
  by (simp add: ex_min_allowed ex_group_rounds)

section \<open>Claims on the qualification filter\<close>

text \<open>
  C2. For every table of participation records and every floor, a combination is
  emitted exactly when it is the (tournament, season, team) of a row that clears the
  floor and whose \<open>num_rounds\<close> reaches the threshold derived from its group's
  \<open>max_games\<close>, where \<open>max_games\<close> is the maximum of \<open>num_rounds\<close> over the rows of
  the group that remain after the floor filter.
\<close>

theorem combos_floor_then_threshold:
  "c \<in> set (calc_team_season_tournament_combos gs f) \<longleftrightarrow>
   (\<exists>r \<in> set gs. project_combo r = c \<and> f \<le> num_rounds r \<and>
      calc_min_games_to_include_team
        (Max (group_rounds (filter (\<lambda>r'. f \<le> num_rounds r') gs) (season r) (tournament r)))
        \<le> num_rounds r)"
  by (rule combos_member)

theorem combos_floor_then_threshold_witness:
  "\<lparr>tournament = ''T1'', season = ''S'', team = ''A''\<rparr>
     \<in> set (calc_team_season_tournament_combos ex_stats 1) \<and>
   \<lparr>tournament = ''T1'', season = ''S'', team = ''B''\<rparr>
     \<notin> set (calc_team_season_tournament_combos ex_stats 1)"
  using
    combos_floor_then_threshold
      [of "\<lparr>tournament = ''T1'', season = ''S'', team = ''A''\<rparr>" ex_stats 1]
    combos_floor_then_threshold
      [of "\<lparr>tournament = ''T1'', season = ''S'', team = ''B''\<rparr>" ex_stats 1]
  by (simp add: ex_combos_1)

text \<open>
  C3, as stated, fails: the filter has no deduplication step, so a table with a
  repeated (team, tournament, season) row that qualifies is emitted with the triple
  repeated.
\<close>

theorem combos_duplicate_counterexample:
  "\<not> distinct (calc_team_season_tournament_combos ex_duplicated 1)"
  by (simp add: ex_duplicated_combos)

text \<open>
  C3, amended. For every table of participation records the output of the filter is
  sorted ascending by (season, tournament, team); when the table has no repeated
  (team, tournament, season) row, the output has no duplicate triple and is strictly
  sorted.
\<close>

theorem combos_sorted_and_distinct:
  "sorted (map (\<lambda>c. (season c, tournament c, team c))
             (calc_team_season_tournament_combos gs f)) \<and>
   (distinct (map sort_columns gs) \<longrightarrow>
      distinct (calc_team_season_tournament_combos gs f) \<and>
      sorted_wrt (<) (map (\<lambda>c. (season c, tournament c, team c))
                        (calc_team_season_tournament_combos gs f)))"
proof -
  let ?out = "calc_team_season_tournament_combos gs f"
  let ?k = "\<lambda>c::qualified_combo. (season c, tournament c, team c)"
  have s: "sorted (map ?k ?out)" by (rule combos_sorted)
  have "distinct (map ?k ?out)" if "distinct ?out"
    using that by (simp add: distinct_map inj_on_def)
  then show ?thesis
    using s combos_distinct [of gs f] by (auto simp: strict_sorted_iff)
qed

theorem combos_sorted_and_distinct_witness:
  "distinct (map sort_columns ex_stats) \<and>
   distinct (calc_team_season_tournament_combos ex_stats 1) \<and>
   sorted_wrt (<) (map (\<lambda>c. (season c, tournament c, team c))
                     (calc_team_season_tournament_combos ex_stats 1)) \<and>
   length (calc_team_season_tournament_combos ex_stats 1) = 3"
proof -
  have d: "distinct (map sort_columns ex_stats)"
    by (simp add: ex_stats_def sort_columns_def)
  show ?thesis
    using d combos_sorted_and_distinct [of ex_stats 1] by (simp add: ex_combos_1)
qed

text \<open>
  C5. For every table of participation records and floors \<open>f1 \<le> f2\<close>, the filter at
  floor \<open>f2\<close> emits no more combinations than at floor \<open>f1\<close>.
\<close>

theorem combos_count_antitone:
  "f1 \<le> f2 \<Longrightarrow>
   length (calc_team_season_tournament_combos gs f2)
     \<le> length (calc_team_season_tournament_combos gs f1)"
  by (rule combos_monotone)

theorem combos_count_antitone_witness:
  "(1::int) \<le> 2 \<and>
   length (calc_team_season_tournament_combos ex_stats 2) = 2 \<and>
   length (calc_team_season_tournament_combos ex_stats 1) = 3 \<and>
   length (calc_team_season_tournament_combos ex_stats 2)
     \<le> length (calc_team_season_tournament_combos ex_stats 1)"
  using combos_count_antitone [of 1 2 ex_stats] by (simp add: ex_combos_1 ex_combos_2)

section \<open>Claims on the participation analysis\<close>

text \<open>
  C4. For every game listing the participation analysis has one row per distinct
  (team, tournament, season) among the home and away sides of the listing; the
  \<open>num_rounds\<close> of a row is the number of distinct round identifiers of the games
  of that tournament and season in which the team is the home or the away side, so a
  round in which the team appears on both sides, or in several games, counts once.
  An empty listing gives an empty table. (A game without a team or tournament gives no
  row for that side, and a missing round cell is no round identifier.)
\<close>

theorem num_games_stats_distinct_rounds:
  "distinct (map stats_key (get_num_games_stats listing)) \<and>
   set (map stats_key (get_num_games_stats listing)) =
     {(tm, t, s). \<exists>g \<in> set listing. tournament g = Some t \<and> season g = s \<and>
                     (home_team g = Some tm \<or> away_team g = Some tm)} \<and>
   (\<forall>r \<in> set (get_num_games_stats listing).
      num_rounds r =
        int (card {rd. \<exists>g \<in> set listing. tournament g = Some (tournament r) \<and>
                         season g = season r \<and>
                         (home_team g = Some (team r) \<or> away_team g = Some (team r)) \<and>
                         round g = Some rd})) \<and>
   get_num_games_stats [] = []"
proof (intro conjI ballI)
  show "set (map stats_key (get_num_games_stats listing)) =
     {(tm, t, s). \<exists>g \<in> set listing. tournament g = Some t \<and> season g = s \<and>
                     (home_team g = Some tm \<or> away_team g = Some tm)}"
    using team_df_keys [of listing] by (simp add: stats_keys listing_keys_def)
  show "get_num_games_stats [] = []"
    by (simp add: stats_unfold team_df_def)
  show "distinct (map stats_key (get_num_games_stats listing))"
    by (rule stats_distinct)
next
  fix r assume "r \<in> set (get_num_games_stats listing)"
  then show "num_rounds r =
      int (card {rd. \<exists>g \<in> set listing. tournament g = Some (tournament r) \<and>
                       season g = season r \<and>
                       (home_team g = Some (team r) \<or> away_team g = Some (team r)) \<and>
                       round g = Some rd})"
    by (simp add: stats_member appearances_set)
qed

theorem num_games_stats_distinct_rounds_witness:
  "\<lparr>tournament = ''T'', season = ''S'', team = ''X'', num_rounds = 3\<rparr>
     \<in> set (get_num_games_stats ex_listing) \<and>
   length (filter (\<lambda>g. home_team g = Some ''X'' \<or> away_team g = Some ''X'') ex_listing) = 4 \<and>
   card {rd. \<exists>g \<in> set ex_listing. tournament g = Some ''T'' \<and> season g = ''S'' \<and>
               (home_team g = Some ''X'' \<or> away_team g = Some ''X'') \<and>
               round g = Some rd} = 3"
  using num_games_stats_distinct_rounds [of ex_listing]
  by (simp add: ex_listing_stats ex_appearances flip: appearances_set)
     (simp add: ex_listing_def)

text \<open>
  C10, as stated, fails: a game whose round cell is empty in the file is read with a
  missing round, which \<open>nunique\<close> does not count, so the participation table of the
  pipeline has rows with \<open>num_rounds = 0\<close>.
\<close>

theorem pipeline_stats_zero_rounds_counterexample:
  "read_game_listing ex_to_datetime ex_no_round_fs ''games.csv'' = Inr ex_no_round_listing \<and>
   get_num_games_stats ex_no_round_listing =
     [\<lparr>tournament = ''T'', season = ''S'', team = ''X'', num_rounds = 0\<rparr>,
      \<lparr>tournament = ''T'', season = ''S'', team = ''Y'', num_rounds = 0\<rparr>]"
  by (rule conjI [OF ex_no_round_read ex_no_round_stats])

text \<open>
  C10, amended. For every game listing the participation table has at most one row
  per (team, tournament, season); every row has \<open>num_rounds\<close> at least 0, and at least
  1 exactly when the team has a game of that tournament and season whose round cell is
  present, so every row has \<open>num_rounds\<close> at least 1 when no round cell of the listing
  is missing. The filter, which does not deduplicate, is therefore run on a table
  without repeated triples, and its output in the pipeline has no repeated triple, at
  every floor.
\<close>

theorem pipeline_stats_unique_and_positive:
  "distinct (map stats_key (get_num_games_stats listing)) \<and>
   (\<forall>r \<in> set (get_num_games_stats listing).
      0 \<le> num_rounds r \<and>
      (1 \<le> num_rounds r \<longleftrightarrow>
         (\<exists>g \<in> set listing. tournament g = Some (tournament r) \<and> season g = season r \<and>
            (home_team g = Some (team r) \<or> away_team g = Some (team r)) \<and>
            round g \<noteq> None))) \<and>
   ((\<forall>g \<in> set listing. round g \<noteq> None) \<longrightarrow>
      (\<forall>r \<in> set (get_num_games_stats listing). 1 \<le> num_rounds r)) \<and>
   distinct (calc_team_season_tournament_combos (get_num_games_stats listing) f)"
proof (intro conjI ballI impI)
  show "distinct (map stats_key (get_num_games_stats listing))"
    by (rule stats_distinct)
  show "distinct (calc_team_season_tournament_combos (get_num_games_stats listing) f)"
    by (simp add: combos_distinct stats_distinct_sort_columns)
next
  fix r assume r: "r \<in> set (get_num_games_stats listing)"
  then show "0 \<le> num_rounds r" by (rule stats_num_rounds_nonneg)
  show "1 \<le> num_rounds r \<longleftrightarrow>
      (\<exists>g \<in> set listing. tournament g = Some (tournament r) \<and> season g = season r \<and>
         (home_team g = Some (team r) \<or> away_team g = Some (team r)) \<and> round g \<noteq> None)"
    unfolding stats_num_rounds_pos_iff [OF r] appearances_set by auto
next
  fix r
  assume "\<forall>g \<in> set listing. round g \<noteq> None" "r \<in> set (get_num_games_stats listing)"
  then show "1 \<le> num_rounds r" by (simp add: stats_num_rounds_pos)
qed

theorem pipeline_stats_unique_and_positive_witness:
  "map round ex_listing = [Some ''1'', Some ''1'', Some ''2'', Some ''3''] \<and>
   \<lparr>tournament = ''T'', season = ''S'', team = ''W'', num_rounds = 1\<rparr>
     \<in> set (get_num_games_stats ex_listing) \<and>
   1 \<le> num_rounds \<lparr>tournament = ''T'', season = ''S'', team = ''W'', num_rounds = 1\<rparr> \<and>
   length (get_num_games_stats ex_listing) = 4 \<and>
   distinct (calc_team_season_tournament_combos (get_num_games_stats ex_listing) 1)"
proof -
  have rounds: "map round ex_listing = [Some ''1'', Some ''1'', Some ''2'', Some ''3'']"
    by (simp add: ex_listing_def)
  have h: "\<forall>g \<in> set ex_listing. round g \<noteq> None" by (simp add: ex_listing_def)
  have m: "\<lparr>tournament = ''T'', season = ''S'', team = ''W'', num_rounds = 1\<rparr>
      \<in> set (get_num_games_stats ex_listing)"
    and l: "length (get_num_games_stats ex_listing) = 4"
    by (simp_all add: ex_listing_stats)
  from pipeline_stats_unique_and_positive [of ex_listing 1] h m
  have "1 \<le> num_rounds \<lparr>tournament = ''T'', season = ''S'', team = ''W'', num_rounds = 1\<rparr>"
    and "distinct (calc_team_season_tournament_combos (get_num_games_stats ex_listing) 1)"
    by blast+
  with rounds m l show ?thesis by blast
qed

section \<open>Claims on the initial ratings\<close>

text \<open>
  C6, as stated, fails: the initial-rating step does not deduplicate by team. A team
  that qualified in two tournaments of the earliest season is written twice.
\<close>

theorem first_season_teams_duplicate_counterexample:
  "\<not> distinct (map fst (first_season_teams ex_combos default_start_rating))"
  by (simp add: ex_first_season default_start_rating_def)

text \<open>
  C6, amended. For every list of qualified combinations the initial-rating step
  selects the rows of the minimum season regardless of tournament and writes one row
  (team, rating) for each of them, in order and without deduplication by team: the
  teams written are exactly the teams of the earliest season, a team once for each of
  its tournaments in that season, and every row has the start rating of the caller,
  2000 by default. No combinations give no rows.
\<close>

theorem first_season_teams_cover:
  "first_season_teams [] sr = [] \<and>
   (combos \<noteq> [] \<longrightarrow>
      map fst (first_season_teams combos sr) =
        map team (filter (\<lambda>c. season c = Min (season ` set combos)) combos) \<and>
      fst ` set (first_season_teams combos sr) =
        team ` {c \<in> set combos. season c = Min (season ` set combos)}) \<and>
   (\<forall>x \<in> set (first_season_teams combos sr). snd x = sr) \<and>
   default_start_rating = 2000"
proof -
  have "fst ` set (first_season_teams combos sr) =
        team ` {c \<in> set combos. season c = Min (season ` set combos)}" if "combos \<noteq> []"
  proof -
    have "fst ` set (first_season_teams combos sr) = set (map fst (first_season_teams combos sr))"
      by simp
    also have "\<dots> = team ` {c \<in> set combos. season c = Min (season ` set combos)}"
      unfolding first_season_teams_names [OF that] by auto
    finally show ?thesis .
  qed
  then show ?thesis
    by (simp add: first_season_teams_Nil first_season_teams_names first_season_teams_rating
        default_start_rating_def)
qed

theorem first_season_teams_cover_witness:
  "ex_combos \<noteq> [] \<and> Min (season ` set ex_combos) = ''2020'' \<and>
   first_season_teams ex_combos default_start_rating =
     [(''A'', 2000), (''B'', 2000), (''A'', 2000)] \<and>
   fst ` set (first_season_teams ex_combos default_start_rating) =
     team ` {c \<in> set ex_combos. season c = ''2020''}"
proof -
  have ne: "ex_combos \<noteq> []" by (simp add: ex_combos_def)
  show ?thesis
    using ne first_season_teams_cover [of default_start_rating ex_combos]
    by (simp add: ex_min ex_first_season default_start_rating_def)
qed

section \<open>Claims on result classification\<close>

text \<open>
  C7, as stated, fails: a score that splits into three integers does not split into
  exactly two integers, and it is classified by its first two parts without an error.
\<close>

theorem calc_result_three_parts_counterexample:
  "those (map (\<lambda>x. py_int (str_strip x)) (str_split CHR '':'' ''1:2:3'')) = Some [1, 2, 3] \<and>
   calc_result ''1:2:3'' = Inr ''win2''"
  by (rule conjI [OF ex_three_parts ex_three_parts_result])

text \<open>
  C7, amended. Result classification raises an error exactly for the score fields
  that have no colon or have a part, between colons, that is no integer; a score of
  two or more integer parts is classified by its first two parts, the others are
  ignored. When a row of the game listing has a score for which classification
  raises, reading the listing raises and the entry point raises: no output is written
  and no row is skipped. (The classification of a cell is \<open>calc_result_cell\<close>: the one
  of its text, and an error for a missing score too.)
\<close>

theorem calc_result_malformed_raises:
  "(isl (calc_result s) \<longleftrightarrow>
      length (str_split CHR '':'' s) < 2 \<or>
      (\<exists>p \<in> set (str_split CHR '':'' s). py_int (str_strip p) = None)) \<and>
   (\<forall>a b rest.
      those (map (\<lambda>x. py_int (str_strip x)) (str_split CHR '':'' s)) = Some (a # b # rest) \<longrightarrow>
      calc_result s = Inr (if a > b then ''win1'' else if a = b then ''draw'' else ''win2'')) \<and>
   (fs path = Some (ListingCsv rows) \<and>
      (\<exists>r \<in> set rows. isl (calc_result_cell (score r))) \<longrightarrow>
      isl (read_game_listing to_datetime fs path) \<and>
      isl (generate_team_season_combos_and_init_team_ratings to_datetime fs path
             output_team_season_path first_season_path f sr))"
proof (intro conjI allI impI)
  show "isl (calc_result s) \<longleftrightarrow>
      length (str_split CHR '':'' s) < 2 \<or>
      (\<exists>p \<in> set (str_split CHR '':'' s). py_int (str_strip p) = None)"
    by (rule calc_result_isl)
next
  fix a b rest
  assume "those (map (\<lambda>x. py_int (str_strip x)) (str_split CHR '':'' s)) = Some (a # b # rest)"
  then show "calc_result s = Inr (if a > b then ''win1'' else if a = b then ''draw'' else ''win2'')"
    by (simp add: calc_result_def)
next
  assume a: "fs path = Some (ListingCsv rows) \<and>
      (\<exists>r \<in> set rows. isl (calc_result_cell (score r)))"
  then show "isl (read_game_listing to_datetime fs path)"
    by (auto intro: read_game_listing_bad_score)
  then show "isl (generate_team_season_combos_and_init_team_ratings to_datetime fs path
             output_team_season_path first_season_path f sr)"
    by (rule generate_isl)
qed

theorem calc_result_malformed_raises_witness:
  "'' -'' \<in> set (str_split CHR '':'' ''- : -'') \<and> py_int (str_strip '' -'') = None \<and>
   isl (calc_result ''- : -'') \<and>
   ex_fs ''games.csv'' = Some (ListingCsv ex_rows) \<and>
   isl (generate_team_season_combos_and_init_team_ratings ex_to_datetime ex_fs ''games.csv''
          ''combos.csv'' ''ratings.csv'' default_min_num_games default_start_rating)"
proof -
  have p: "'' -'' \<in> set (str_split CHR '':'' ''- : -'')" by simp
  have n: "py_int (str_strip '' -'') = None" by (rule ex_not_played)
  have fs: "ex_fs ''games.csv'' = Some (ListingCsv ex_rows)" by (simp add: ex_fs_def)
  have r: "score (hd ex_rows) = Some ''- : -''" "hd ex_rows \<in> set ex_rows"
    by (simp_all add: ex_rows_def)
  have c: "calc_result_cell (Some ''- : -'') = calc_result ''- : -''"
    by (simp add: calc_result_cell_def)
  note inst = calc_result_malformed_raises [where s = "''- : -''" and fs = ex_fs
      and path = "''games.csv''" and rows = ex_rows and to_datetime = ex_to_datetime
      and output_team_season_path = "''combos.csv''" and first_season_path = "''ratings.csv''"
      and f = default_min_num_games and sr = default_start_rating]
  from inst p n have bad: "isl (calc_result ''- : -'')" by blast
  with inst fs r c show ?thesis using p n by metis
qed

section \<open>Claims on the rating aggregation\<close>

text \<open>
  C8 holds of the specification and fails in the code. With the ratings A: 1900 and
  B: 2100 and the tournaments T1 = {A, B} and T2 = {A} of a season written as the
  number 2020, \<open>save_prepare_season_initial_ratings\<close> raises ValueError where the claim
  gives A and B of T1 the rating 2000.00 and A of T2 the rating 1900.00: line 63 hands
  \<open>'rating'\<close> to \<open>mean\<close> as \<open>numeric_only\<close>, so the numeric season column is averaged as
  well and the two columns cannot be set as one. The same table with a text season is
  aggregated as the claim says.
\<close>

theorem save_prepare_raises_on_numeric_season:
  "save_prepare_season_initial_ratings (Some rat_of_int) ex_elo ex_team_seasons_numeric =
     Inl ValueError \<and>
   save_prepare_season_initial_ratings None ex_elo ex_team_seasons_text =
     Inr [(''A'', Some 2000), (''B'', Some 2000), (''A'', Some 1900)]"
  by (rule conjI [OF ex_agg_numeric ex_agg_text])

section \<open>Claims on the entry point\<close>

text \<open>
  C9. If the game-listing file does not exist, the entry point raises
  FileNotFoundError with the path in its message; nothing is computed or written.
\<close>

theorem generate_missing_input:
  "fs games_list_path = None \<Longrightarrow>
   generate_team_season_combos_and_init_team_ratings to_datetime fs games_list_path
       output_team_season_path first_season_path min_num_games start_rating =
   Inl (FileNotFoundError (''File not found: '' @ games_list_path))"
  by (rule generate_missing)

theorem generate_missing_input_witness:
  "(Map.empty :: int file_system) ''games.csv'' = None \<and>
   generate_team_season_combos_and_init_team_ratings ex_to_datetime
       (Map.empty :: int file_system) ''games.csv'' ''combos.csv'' ''ratings.csv''
       default_min_num_games default_start_rating =
   Inl (FileNotFoundError ''File not found: games.csv'')"
proof -
  have h: "(Map.empty :: int file_system) ''games.csv'' = None" by simp
  show ?thesis
    using h generate_missing_input [OF h, where to_datetime = ex_to_datetime
        and output_team_season_path = "''combos.csv''" and first_season_path = "''ratings.csv''"
        and min_num_games = default_min_num_games and start_rating = default_start_rating]
    by simp
qed

end
